theory Spec2Isabelle
  imports Main
begin

section \<open>Values of the content script\<close>

text \<open>
  The script \<^verbatim>\<open>content.js\<close> works on strings. A title and a rating are JavaScript values
  of type \<^verbatim>\<open>string|null\<close> (the JSDoc of \<^verbatim>\<open>fetchRating\<close>): \<open>None\<close> stands for
  \<^verbatim>\<open>null\<close> and \<^verbatim>\<open>undefined\<close>, \<open>Some s\<close> for the string \<open>s\<close>.
\<close>

type_synonym title = "string option"
type_synonym rating = "string option"

text \<open>JavaScript truthiness on \<^verbatim>\<open>string|null\<close>: only a non-empty string is truthy.\<close>

fun truthy :: "string option \<Rightarrow> bool" where
  "truthy None = False"
| "truthy (Some s) = (s \<noteq> [])"

text \<open>The exceptions that the body of the \<^verbatim>\<open>try\<close> block can throw.\<close>

datatype js_error =
    ReferenceError string
  | TypeError string
  | NetworkError
  | SyntaxError

text \<open>
  The remote service as the script observes it: \<^verbatim>\<open>fetch(url)\<close> either rejects or
  resolves to a response whose \<^verbatim>\<open>json()\<close> rejects (the body is not JSON), yields
  \<^verbatim>\<open>null\<close>, or yields an object. The fields of the OMDb answer are strings, so an object is
  a list of string-valued fields; a field that is missing reads as \<^verbatim>\<open>undefined\<close>.
\<close>

datatype body = NotJson | JsonNull | JsonObject "(string \<times> string) list"

datatype fetch_outcome = Rejects | Responds body

text \<open>
  What a call does besides returning: the calls on \<^verbatim>\<open>ratingCache\<close>, the requests
  issued by \<^verbatim>\<open>fetch\<close> and the lines written by \<^verbatim>\<open>console.error\<close>, in program order.
\<close>

datatype effect =
    CacheHas string
  | CacheGet string
  | CacheSet string string
  | HttpGet string
  | ConsoleError string js_error

type_synonym cache = "string \<rightharpoonup> string"

section \<open>The document\<close>

text \<open>
  An element of the page: its tag, its class list, its attributes, its inline style, the
  markup last assigned to \<^verbatim>\<open>innerHTML\<close>, and its child elements in document order. An
  element is referred to by its position: a path is the list of child indices that leads
  to it from a given element.
\<close>

datatype node =
  Node (tag: string) (classes: "string list") (attrs: "(string \<times> string) list")
       (style: "(string \<times> string) list") (markup: string) (kids: "node list")

type_synonym path = "nat list"

fun node_at :: "node \<Rightarrow> path \<Rightarrow> node option" where
  "node_at n [] = Some n"
| "node_at n (i # p) = (if i < length (kids n) then node_at (kids n ! i) p else None)"

fun update_at :: "path \<Rightarrow> (node \<Rightarrow> node) \<Rightarrow> node \<Rightarrow> node" where
  "update_at [] f n = f n"
| "update_at (i # p) f (Node tg cl at st mk ks) =
     (if i < length ks then Node tg cl at st mk (ks[i := update_at p f (ks ! i)])
      else Node tg cl at st mk ks)"

text \<open>The selectors of the script: \<^verbatim>\<open>.cls\<close> and \<^verbatim>\<open>[attr]\<close>.\<close>

definition has_class :: "string \<Rightarrow> node \<Rightarrow> bool" where
  "has_class cls n = (cls \<in> set (classes n))"

definition has_attr :: "string \<Rightarrow> node \<Rightarrow> bool" where
  "has_attr a n = (map_of (attrs n) a \<noteq> None)"

text \<open>
  \<^verbatim>\<open>element.querySelector(sel)\<close>: the first descendant of the element, in document order,
  that matches; the element itself is not a candidate. The function searches a list of
  children and returns the path from their parent.
\<close>

fun query_kids :: "(node \<Rightarrow> bool) \<Rightarrow> node list \<Rightarrow> path option" where
  "query_kids sel [] = None"
| "query_kids sel (Node tg cl at st mk ks # ns) =
     (if sel (Node tg cl at st mk ks) then Some [0]
      else (case query_kids sel ks of
              Some p \<Rightarrow> Some (0 # p)
            | None \<Rightarrow>
                (case query_kids sel ns of
                   Some (i # p) \<Rightarrow> Some (Suc i # p)
                 | _ \<Rightarrow> None)))"

definition querySelector :: "(node \<Rightarrow> bool) \<Rightarrow> node \<Rightarrow> path option" where
  "querySelector sel n = query_kids sel (kids n)"

text \<open>
  \<^verbatim>\<open>element.closest(sel)\<close>, for the element at path \<open>p\<close> of \<open>n\<close>: the nearest of the element
  and its ancestors up to \<open>n\<close> that matches, as a path from \<open>n\<close>.
\<close>

fun closest :: "(node \<Rightarrow> bool) \<Rightarrow> node \<Rightarrow> path \<Rightarrow> path option" where
  "closest sel n [] = (if sel n then Some [] else None)"
| "closest sel n (i # p) =
     (if i < length (kids n) then
        (case closest sel (kids n ! i) p of
           Some q \<Rightarrow> Some (i # q)
         | None \<Rightarrow> if sel n then Some [] else None)
      else None)"

text \<open>\<^verbatim>\<open>child.remove()\<close> for the child at a path below a list of children.\<close>

fun detach :: "path \<Rightarrow> node list \<Rightarrow> node list" where
  "detach [] ns = ns"
| "detach [i] ns = take i ns @ drop (Suc i) ns"
| "detach (i # p) ns =
     (if i < length ns then
        (case ns ! i of
           Node tg cl at st mk ks \<Rightarrow> ns[i := Node tg cl at st mk (detach p ks)])
      else ns)"

text \<open>All descendants of a list of children, in document order.\<close>

fun forest_nodes :: "node list \<Rightarrow> node list" where
  "forest_nodes [] = []"
| "forest_nodes (Node tg cl at st mk ks # ns) =
     Node tg cl at st mk ks # forest_nodes ks @ forest_nodes ns"

section \<open>The host of the script\<close>

text \<open>
  What the browser, the page and the network give to the script; the script fixes none
  of it.
  \<^item> \<open>global_apiUrl\<close>: the script reads the identifier \<^verbatim>\<open>apiUrl\<close> and declares no such
    name, so the name is looked up on the global object. There a page element whose
    \<^verbatim>\<open>id\<close> or \<^verbatim>\<open>name\<close> is \<^verbatim>\<open>apiUrl\<close> appears as a property of that name. \<open>None\<close>: the
    global object has no such property. \<open>Some url\<close>: it has one, and \<open>url\<close> is the string
    that \<^verbatim>\<open>fetch\<close> makes of its value, the address of the request.
  \<^item> \<open>service\<close>: what the network does with a request to an address.
  \<^item> \<open>parse_html\<close>: the HTML parser of the browser: the child elements that a string
    assigned to \<^verbatim>\<open>innerHTML\<close> produces, in document order.
\<close>

record host =
  global_apiUrl :: "string option"
  service :: "string \<Rightarrow> fetch_outcome"
  parse_html :: "string \<Rightarrow> node list"

section \<open>The scope of the module\<close>

text \<open>
  The string constants that the module declares at top level. Line 4 declares
  \<^verbatim>\<open>OMDb_API_KEY = ""\<close>. The declaration of \<^verbatim>\<open>apiUrl\<close> on lines 40 to 42 is commented
  out, so the module binds no such name.
\<close>

definition module_consts :: "(string \<times> string) list" where
  "module_consts = [(''OMDb_API_KEY'', '''')]"

text \<open>
  The value of the identifier \<^verbatim>\<open>apiUrl\<close> on line 43: a declaration of the module comes
  first, then the global object. \<open>None\<close>: the name is unbound and reading it throws a
  \<^verbatim>\<open>ReferenceError\<close>.
\<close>

definition resolve_apiUrl :: "host \<Rightarrow> string option" where
  "resolve_apiUrl h =
     (case map_of module_consts ''apiUrl'' of
        Some url \<Rightarrow> Some url
      | None \<Rightarrow> global_apiUrl h)"

section \<open>The rating fetcher\<close>

text \<open>
  Lines 39 to 59, the body of the \<^verbatim>\<open>try\<close> block. The result is \<open>Inl\<close> of the exception
  thrown or \<open>Inr\<close> of the value returned, with the cache and the effects up to that point.
  The argument of \<^verbatim>\<open>fetch(apiUrl)\<close> is evaluated before the call, so an unbound
  \<^verbatim>\<open>apiUrl\<close> throws before any request is issued. \<^verbatim>\<open>data.Response\<close> on \<^verbatim>\<open>null\<close> throws a
  \<^verbatim>\<open>TypeError\<close>.
\<close>

definition remote_lookup ::
  "host \<Rightarrow> string \<Rightarrow> cache \<Rightarrow> (js_error + rating) \<times> cache \<times> effect list" where
  "remote_lookup h t c =
     (case resolve_apiUrl h of
        None \<Rightarrow> (Inl (ReferenceError ''apiUrl''), c, [])
      | Some apiUrl \<Rightarrow>
          (case service h apiUrl of
             Rejects \<Rightarrow> (Inl NetworkError, c, [HttpGet apiUrl])
           | Responds NotJson \<Rightarrow> (Inl SyntaxError, c, [HttpGet apiUrl])
           | Responds JsonNull \<Rightarrow> (Inl (TypeError ''Response''), c, [HttpGet apiUrl])
           | Responds (JsonObject data) \<Rightarrow>
               (case map_of data ''imdbRating'' of
                  Some rating \<Rightarrow>
                    if map_of data ''Response'' = Some ''True'' \<and> rating \<noteq> [] \<and> rating \<noteq> ''N/A''
                    then (Inr (Some rating), c(t \<mapsto> rating), [HttpGet apiUrl, CacheSet t rating])
                    else (Inr (Some ''N/A''), c(t \<mapsto> ''N/A''), [HttpGet apiUrl, CacheSet t ''N/A''])
                | None \<Rightarrow>
                    (Inr (Some ''N/A''), c(t \<mapsto> ''N/A''), [HttpGet apiUrl, CacheSet t ''N/A'']))))"

text \<open>
  Lines 28 to 64. The promise that \<^verbatim>\<open>fetchRating\<close> returns is modelled by the value it
  resolves to; the function never rejects, since the \<^verbatim>\<open>catch\<close> block handles every
  exception of the \<^verbatim>\<open>try\<close> block and the code before it cannot throw.
\<close>

definition fetchRating :: "host \<Rightarrow> title \<Rightarrow> cache \<Rightarrow> rating \<times> cache \<times> effect list" where
  "fetchRating h title c =
     (case title of
        None \<Rightarrow> (None, c, [])
      | Some t \<Rightarrow>
          if t = [] then (None, c, [])
          else if c t \<noteq> None then (c t, c, [CacheHas t, CacheGet t])
          else
            (case remote_lookup h t c of
               (Inl error, c', es) \<Rightarrow>
                 (None, c', CacheHas t # es @ [ConsoleError ''Error fetching IMDb rating:'' error])
             | (Inr rating, c', es) \<Rightarrow> (rating, c', CacheHas t # es)))"



fun is_cache_write :: "effect \<Rightarrow> bool" where
  "is_cache_write (CacheSet _ _) = True"
| "is_cache_write _ = False"

section \<open>The badge renderer\<close>

definition is_badge :: "node \<Rightarrow> bool" where
  "is_badge = has_class ''imdb-rating-badge''"

definition badges :: "node \<Rightarrow> node list" where
  "badges n = filter is_badge (forest_nodes (kids n))"

text \<open>Lines 95 to 100.\<close>

definition removeRating :: "node \<Rightarrow> node" where
  "removeRating targetElement =
     (case querySelector is_badge targetElement of
        None \<Rightarrow> targetElement
      | Some existingBadge \<Rightarrow>
          (case targetElement of
             Node tg cl at st mk ks \<Rightarrow> Node tg cl at st mk (detach existingBadge ks)))"

text \<open>Assignment to one property of an inline style.\<close>

fun set_prop :: "string \<Rightarrow> string \<Rightarrow> (string \<times> string) list \<Rightarrow> (string \<times> string) list" where
  "set_prop k v [] = [(k, v)]"
| "set_prop k v ((k', v') # st) = (if k' = k then (k, v) # st else (k', v') # set_prop k v st)"

text \<open>
  Lines 77 to 85: the element that \<^verbatim>\<open>displayRating\<close> creates. Line 79 assigns the star
  and the rating to \<^verbatim>\<open>innerHTML\<close>: the browser parses the string as HTML, and the elements
  it finds in the rating become children of the badge.
\<close>

definition badge :: "host \<Rightarrow> string \<Rightarrow> node" where
  "badge h rating =
     Node ''div'' [''imdb-rating-badge''] []
       (set_prop ''zIndex'' ''100'' (set_prop ''right'' ''8px''
          (set_prop ''top'' ''8px'' (set_prop ''position'' ''absolute'' []))))
       (''&#9733; '' @ rating) (parse_html h (''&#9733; '' @ rating))"

definition appendChild :: "node \<Rightarrow> node \<Rightarrow> node" where
  "appendChild child n =
     (case n of Node tg cl at st mk ks \<Rightarrow> Node tg cl at st mk (ks @ [child]))"

definition set_style :: "string \<Rightarrow> string \<Rightarrow> node \<Rightarrow> node" where
  "set_style k v n =
     (case n of Node tg cl at st mk ks \<Rightarrow> Node tg cl at (set_prop k v st) mk ks)"

text \<open>Lines 71 to 89.\<close>

definition displayRating :: "host \<Rightarrow> node \<Rightarrow> rating \<Rightarrow> node" where
  "displayRating h targetElement rating =
     (let target = removeRating targetElement in
      case rating of
        None \<Rightarrow> target
      | Some r \<Rightarrow>
          if r = [] then target
          else appendChild (badge h r) (set_style ''position'' ''relative'' target))"

text \<open>
  A rating is plain for a host when its markup yields no element of the badge's class:
  so it is for text without tags, such as the numbers that the rating service returns.
\<close>

definition plain_rating :: "host \<Rightarrow> rating \<Rightarrow> bool" where
  "plain_rating h rating =
     (case rating of
        None \<Rightarrow> True
      | Some r \<Rightarrow> filter is_badge (forest_nodes (parse_html h (''&#9733; '' @ r))) = [])"

section \<open>The page and its timers\<close>

text \<open>
  An event is represented by its \<^verbatim>\<open>target\<close>, a path from the root of the document. The
  state of the page: the two module variables \<^verbatim>\<open>ratingCache\<close> and \<^verbatim>\<open>debounceTimer\<close>,
  the timers of the host that are pending (handle, due time, arguments of the call), the
  next fresh handle, the clock, the document, the effects so far, and the invocations of
  \<^verbatim>\<open>handleMouseOver\<close> so far with their times. The only callback that the script ever
  passes to \<^verbatim>\<open>setTimeout\<close> is the one that \<^verbatim>\<open>debounce(handleMouseOver, 300)\<close> builds, so
  a pending timer is determined by the arguments it will pass on.
\<close>

type_synonym event = path

record page =
  ratingCache :: cache
  debounceTimer :: "nat option"
  timers :: "(nat \<times> nat \<times> event) list"
  next_timer :: nat
  now :: nat
  document :: node
  effects :: "effect list"
  entered :: "(nat \<times> event) list"

definition initial_page :: "node \<Rightarrow> page" where
  "initial_page doc =
     \<lparr>ratingCache = Map.empty, debounceTimer = None, timers = [], next_timer = 1, now = 0,
      document = doc, effects = [], entered = []\<rparr>"

text \<open>\<^verbatim>\<open>clearTimeout\<close> ignores \<^verbatim>\<open>undefined\<close> and handles that are not pending.\<close>

definition clearTimeout :: "nat option \<Rightarrow> page \<Rightarrow> page" where
  "clearTimeout h s =
     (case h of
        None \<Rightarrow> s
      | Some i \<Rightarrow> s\<lparr>timers := filter (\<lambda>(j, due, args). j \<noteq> i) (timers s)\<rparr>)"

definition setTimeout :: "event \<Rightarrow> nat \<Rightarrow> page \<Rightarrow> nat \<times> page" where
  "setTimeout args delay s =
     (next_timer s,
      s\<lparr>timers := timers s @ [(next_timer s, now s + delay, args)],
        next_timer := Suc (next_timer s)\<rparr>)"

text \<open>Lines 15 to 20: the function that \<^verbatim>\<open>debounce(handleMouseOver, delay)\<close> returns.\<close>

definition debounced :: "nat \<Rightarrow> event \<Rightarrow> page \<Rightarrow> page" where
  "debounced delay args s =
     (case setTimeout args delay (clearTimeout (debounceTimer s) s) of
        (h, s') \<Rightarrow> s'\<lparr>debounceTimer := Some h\<rparr>)"

section \<open>The hover controller\<close>

text \<open>
  Lines 107 to 125. The call is recorded in \<open>entered\<close> on entry. The handler awaits only
  \<^verbatim>\<open>fetchRating\<close>; it is run here as one step, with the host it would meet.
\<close>

definition handleMouseOver :: "host \<Rightarrow> event \<Rightarrow> page \<Rightarrow> page" where
  "handleMouseOver h event s0 =
     (let s = s0\<lparr>entered := entered s0 @ [(now s0, event)]\<rparr> in
      case closest (has_class ''slider-item'') (document s) event of
        None \<Rightarrow> s
      | Some movieCard \<Rightarrow>
          (case node_at (document s) movieCard of
             None \<Rightarrow> s
           | Some cardElement \<Rightarrow>
               (let title =
                      (case querySelector (has_attr ''aria-label'') cardElement of
                         None \<Rightarrow> None
                       | Some p \<Rightarrow>
                           (case node_at cardElement p of
                              None \<Rightarrow> None
                            | Some titleElement \<Rightarrow> map_of (attrs titleElement) ''aria-label''))
                in
                  if truthy title then
                    (case fetchRating h title (ratingCache s) of
                       (rating, c, es) \<Rightarrow>
                         (let s' = s\<lparr>ratingCache := c, effects := effects s @ es\<rparr> in
                          if truthy rating then
                            s'\<lparr>document :=
                                 update_at movieCard (\<lambda>n. displayRating h n rating) (document s')\<rparr>
                          else s'))
                  else s)))"

text \<open>Lines 132 to 139.\<close>

definition handleMouseOut :: "event \<Rightarrow> page \<Rightarrow> page" where
  "handleMouseOut event s =
     (case closest (has_class ''slider-item'') (document s) event of
        None \<Rightarrow> s
      | Some movieCard \<Rightarrow>
          (let s' = clearTimeout (debounceTimer s) s in
           s'\<lparr>document := update_at movieCard removeRating (document s')\<rparr>))"

text \<open>
  A timer that is due fires: it leaves the pending timers and its callback runs
  \<^verbatim>\<open>handleMouseOver\<close> with the arguments it kept. Letting \<open>d\<close> units of time pass fires the
  timers due by then, earliest first, ties in the order they were set.
\<close>

fun fire :: "host \<Rightarrow> nat \<times> nat \<times> event \<Rightarrow> page \<Rightarrow> page" where
  "fire h (i, due, args) s =
     handleMouseOver h args
       (s\<lparr>timers := filter (\<lambda>(j, due', args'). j \<noteq> i) (timers s), now := max (now s) due\<rparr>)"

definition elapse :: "host \<Rightarrow> nat \<Rightarrow> page \<Rightarrow> page" where
  "elapse h d s =
     (fold (fire h)
        (sort_key (\<lambda>(i, due, args). due)
           (filter (\<lambda>(i, due, args). due \<le> now s + d) (timers s))) s)
     \<lparr>now := now s + d\<rparr>"

text \<open>
  Lines 144 and 145: the two listeners on the document. A run is a list of events, each
  with the time that passed since the previous one.
\<close>

datatype dom_event = MouseOver event | MouseOut event

fun dispatch :: "dom_event \<Rightarrow> page \<Rightarrow> page" where
  "dispatch (MouseOver e) s = debounced 300 e s"
| "dispatch (MouseOut e) s = handleMouseOut e s"

fun run :: "host \<Rightarrow> (nat \<times> dom_event) list \<Rightarrow> page \<Rightarrow> page" where
  "run h [] s = s"
| "run h ((d, ev) # evs) s = run h evs (dispatch ev (elapse h d s))"

text \<open>
  At most one timer is pending, and then \<^verbatim>\<open>debounceTimer\<close> holds its handle.
\<close>

definition pending_ok :: "page \<Rightarrow> bool" where
  "pending_ok s =
     (case timers s of
        [] \<Rightarrow> True
      | [(i, due, args)] \<Rightarrow> debounceTimer s = Some i
      | _ \<Rightarrow> False)"

section \<open>Properties of the rating fetcher\<close>

lemma resolve_apiUrl_global: "resolve_apiUrl h = global_apiUrl h"
  by (simp add: resolve_apiUrl_def module_consts_def)

lemma remote_lookup_unbound:
  "global_apiUrl h = None \<Longrightarrow> remote_lookup h t c = (Inl (ReferenceError ''apiUrl''), c, [])"
  by (simp add: remote_lookup_def resolve_apiUrl_global)

text \<open>
  Three facts that hold by the structure of the \<^verbatim>\<open>try\<close> block, whatever \<^verbatim>\<open>apiUrl\<close> is
  bound to: an exception leaves the cache as it was and comes before any write; a return
  without exception has written the value returned under the queried title, after one
  request; and no entry of another title is touched.
\<close>

lemma remote_lookup_failure:
  assumes "remote_lookup h t c = (Inl error, c', es)"
  shows "c' = c" and "filter is_cache_write es = []"
  using assms
  by (auto simp: remote_lookup_def
      split: option.splits fetch_outcome.splits body.splits if_splits)






text \<open>
  Claim C1. The claim: on a title absent from the cache, when the remote lookup answers
  with \<^verbatim>\<open>Response: "True"\<close> and a rating that is present and not \<^verbatim>\<open>"N/A"\<close>,
  \<^verbatim>\<open>fetchRating\<close> stores the rating under the title and resolves to it. The code does not:
  at the input of the claim's example, title \<^verbatim>\<open>"Title A"\<close>, empty cache and a service that
  answers \<^verbatim>\<open>{Response:"True", imdbRating:"8.4"}\<close>, on a page that has no element named
  \<^verbatim>\<open>apiUrl\<close>, the call resolves to \<^verbatim>\<open>null\<close>, writes nothing to the cache, issues no
  request and logs a \<^verbatim>\<open>ReferenceError\<close>.
\<close>

theorem fetchRating_found_answer_lost:
  "fetchRating
     \<lparr>global_apiUrl = None,
      service = (\<lambda>url. Responds (JsonObject [(''Response'', ''True''), (''imdbRating'', ''8.4'')])),
      parse_html = (\<lambda>m. [])\<rparr>
     (Some ''Title A'') Map.empty =
   (None, Map.empty,
    [CacheHas ''Title A'',
     ConsoleError ''Error fetching IMDb rating:'' (ReferenceError ''apiUrl'')])"
  by (simp add: fetchRating_def remote_lookup_def resolve_apiUrl_def module_consts_def)

text \<open>
  Claim C2. The claim: for every non-empty title that is not in the cache \<^verbatim>\<open>fetchRating\<close>
  resolves to \<^verbatim>\<open>null\<close> and leaves the cache unchanged, since \<^verbatim>\<open>apiUrl\<close> is never defined.
  It fails on a page that has an element named \<^verbatim>\<open>apiUrl\<close>: there the identifier is bound
  through the global object, the request is issued, and with the answer
  \<^verbatim>\<open>{Response:"True", imdbRating:"8.4"}\<close> the call stores the rating and resolves to it.
\<close>

theorem fetchRating_miss_with_global_apiUrl:
  "fetchRating
     \<lparr>global_apiUrl = Some ''https://www.omdbapi.com/?t=Title%20A'',
      service = (\<lambda>url. Responds (JsonObject [(''Response'', ''True''), (''imdbRating'', ''8.4'')])),
      parse_html = (\<lambda>m. [])\<rparr>
     (Some ''Title A'') Map.empty =
   (Some ''8.4'', [''Title A'' \<mapsto> ''8.4''],
    [CacheHas ''Title A'', HttpGet ''https://www.omdbapi.com/?t=Title%20A'',
     CacheSet ''Title A'' ''8.4''])"
  by (simp add: fetchRating_def remote_lookup_def resolve_apiUrl_def module_consts_def)

text \<open>
  Claim C2, as amended. On a page whose global object has no property \<^verbatim>\<open>apiUrl\<close>, for
  every non-empty title that is not in the cache and whatever the remote service would
  answer, \<^verbatim>\<open>fetchRating\<close> resolves to \<^verbatim>\<open>null\<close> and leaves the cache as it was: reading the
  unbound \<^verbatim>\<open>apiUrl\<close> throws before a request is issued, the \<^verbatim>\<open>catch\<close> block logs the
  \<^verbatim>\<open>ReferenceError\<close>, and no branch that writes to the cache is reached.
\<close>

theorem fetchRating_miss_always_null:
  assumes "global_apiUrl h = None" and "t \<noteq> []" and "c t = None"
  shows "fetchRating h (Some t) c =
     (None, c,
      [CacheHas t, ConsoleError ''Error fetching IMDb rating:'' (ReferenceError ''apiUrl'')])"
  using assms by (simp add: fetchRating_def remote_lookup_unbound)

theorem fetchRating_miss_always_null_witness:
  "''Inception'' \<noteq> [] \<and> (Map.empty :: cache) ''Inception'' = None \<and>
   fetchRating
     \<lparr>global_apiUrl = None,
      service = (\<lambda>url. Responds (JsonObject [(''Response'', ''True''), (''imdbRating'', ''8.8'')])),
      parse_html = (\<lambda>m. [])\<rparr>
     (Some ''Inception'') Map.empty =
     (None, Map.empty,
      [CacheHas ''Inception'',
       ConsoleError ''Error fetching IMDb rating:'' (ReferenceError ''apiUrl'')])"
  using fetchRating_miss_always_null [of
      "\<lparr>global_apiUrl = None,
        service = (\<lambda>url. Responds (JsonObject [(''Response'', ''True''), (''imdbRating'', ''8.8'')])),
        parse_html = (\<lambda>m. [])\<rparr>" "''Inception''" Map.empty]
  by simp



text \<open>
  Claim C4. The claim: when the remote lookup for an uncached title answers not-found or
  without a usable rating, \<^verbatim>\<open>fetchRating\<close> stores \<^verbatim>\<open>"N/A"\<close> for the title and resolves to
  it. The code does not: with title \<^verbatim>\<open>"Title A"\<close>, empty cache and a service that answers
  \<^verbatim>\<open>{Response:"False"}\<close>, on a page that has no element named \<^verbatim>\<open>apiUrl\<close>, the call
  resolves to \<^verbatim>\<open>null\<close> and the cache stays empty.
\<close>

theorem fetchRating_not_found_answer_lost:
  "fetchRating
     \<lparr>global_apiUrl = None,
      service = (\<lambda>url. Responds (JsonObject [(''Response'', ''False'')])),
      parse_html = (\<lambda>m. [])\<rparr>
     (Some ''Title A'') Map.empty =
   (None, Map.empty,
    [CacheHas ''Title A'',
     ConsoleError ''Error fetching IMDb rating:'' (ReferenceError ''apiUrl'')])"
  by (simp add: fetchRating_def remote_lookup_def resolve_apiUrl_def module_consts_def)

text \<open>
  Claim C5. Failure atomicity: when the body of the \<^verbatim>\<open>try\<close> block throws on a lookup for a
  non-empty uncached title, be it the rejection of \<^verbatim>\<open>fetch\<close>, a body that is not JSON or
  any other exception, \<^verbatim>\<open>fetchRating\<close> resolves to \<^verbatim>\<open>null\<close>, the cache is unchanged and
  still has no entry for the title, nothing was written to it, and the last effect is the
  line that \<^verbatim>\<open>console.error\<close> writes with the exception.
\<close>

theorem failure_atomicity:
  assumes "t \<noteq> []" and "c t = None"
    and "remote_lookup h t c = (Inl error, c', es)"
  shows "fetchRating h (Some t) c =
           (None, c, CacheHas t # es @ [ConsoleError ''Error fetching IMDb rating:'' error]) \<and>
         fst (snd (fetchRating h (Some t) c)) t = None \<and>
         filter is_cache_write (snd (snd (fetchRating h (Some t) c))) = []"
proof -
  from assms(3) have "c' = c" and "filter is_cache_write es = []"
    by (rule remote_lookup_failure)+
  with assms show ?thesis by (simp add: fetchRating_def)
qed

text \<open>
  The witness: on a page where \<^verbatim>\<open>apiUrl\<close> is bound, a request that the network rejects,
  and one whose answer is not JSON.
\<close>

theorem failure_atomicity_witness:
  "remote_lookup
     \<lparr>global_apiUrl = Some ''u'', service = (\<lambda>url. Rejects), parse_html = (\<lambda>m. [])\<rparr>
     ''Title A'' Map.empty = (Inl NetworkError, Map.empty, [HttpGet ''u'']) \<and>
   fetchRating
     \<lparr>global_apiUrl = Some ''u'', service = (\<lambda>url. Rejects), parse_html = (\<lambda>m. [])\<rparr>
     (Some ''Title A'') Map.empty =
     (None, Map.empty,
      [CacheHas ''Title A'', HttpGet ''u'',
       ConsoleError ''Error fetching IMDb rating:'' NetworkError]) \<and>
   remote_lookup
     \<lparr>global_apiUrl = Some ''u'', service = (\<lambda>url. Responds NotJson), parse_html = (\<lambda>m. [])\<rparr>
     ''Title A'' Map.empty = (Inl SyntaxError, Map.empty, [HttpGet ''u'']) \<and>
   fetchRating
     \<lparr>global_apiUrl = Some ''u'', service = (\<lambda>url. Responds NotJson), parse_html = (\<lambda>m. [])\<rparr>
     (Some ''Title A'') Map.empty =
     (None, Map.empty,
      [CacheHas ''Title A'', HttpGet ''u'',
       ConsoleError ''Error fetching IMDb rating:'' SyntaxError])"
  using
    failure_atomicity [of "''Title A''" Map.empty
      "\<lparr>global_apiUrl = Some ''u'', service = (\<lambda>url. Rejects), parse_html = (\<lambda>m. [])\<rparr>"
      NetworkError Map.empty "[HttpGet ''u'']"]
    failure_atomicity [of "''Title A''" Map.empty
      "\<lparr>global_apiUrl = Some ''u'', service = (\<lambda>url. Responds NotJson), parse_html = (\<lambda>m. [])\<rparr>"
      SyntaxError Map.empty "[HttpGet ''u'']"]
  by (simp add: remote_lookup_def resolve_apiUrl_def module_consts_def)

text \<open>
  Claim C6. With an empty or absent title \<^verbatim>\<open>fetchRating\<close> resolves to \<^verbatim>\<open>null\<close> at once:
  the cache is returned as it was and the call has no effect at all, so it neither reads
  nor writes the cache and issues no request.
\<close>

theorem falsy_title_returns_null:
  assumes "\<not> truthy title"
  shows "fetchRating h title c = (None, c, [])"
  using assms by (cases title) (simp_all add: fetchRating_def)

theorem falsy_title_returns_null_witness:
  "\<not> truthy (Some '''') \<and>
   fetchRating
     \<lparr>global_apiUrl = None, service = (\<lambda>url. Rejects), parse_html = (\<lambda>m. [])\<rparr>
     (Some '''') [''Title A'' \<mapsto> ''8.4''] =
     (None, [''Title A'' \<mapsto> ''8.4''], [])"
  using falsy_title_returns_null [of "Some ''''"
      "\<lparr>global_apiUrl = None, service = (\<lambda>url. Rejects), parse_html = (\<lambda>m. [])\<rparr>"
      "[''Title A'' \<mapsto> ''8.4'']"]
  by simp


section \<open>Properties of the badge renderer\<close>

lemma forest_nodes_append: "forest_nodes (xs @ ys) = forest_nodes xs @ forest_nodes ys"
  by (induction xs rule: forest_nodes.induct) simp_all

lemma query_kids_nonempty: "query_kids sel ns \<noteq> Some []"
  by (induction sel ns rule: query_kids.induct) (auto split: option.splits list.splits)

lemma query_kids_None:
  "(query_kids sel ns = None) = (filter sel (forest_nodes ns) = [])"
  using query_kids_nonempty [of sel]
  by (induction sel ns rule: query_kids.induct) (auto split: option.splits list.splits)

lemma detach_Suc: "detach (Suc i # p) (n # ns) = n # detach (i # p) ns"
  by (cases p) (auto split: node.splits)

lemma detach_fewer:
  "sel = has_class c \<Longrightarrow> query_kids sel ns = Some p \<Longrightarrow>
   length (filter sel (forest_nodes (detach p ns))) < length (filter sel (forest_nodes ns))"
proof (induction sel ns arbitrary: p rule: query_kids.induct)
  case (1 sel)
  then show ?case by simp
next
  case (2 sel tg cl at st mk ks ns)
  let ?n = "Node tg cl at st mk ks"
  show ?case
  proof (cases "sel ?n")
    case True
    with 2 have "p = [0]" by simp
    with True show ?thesis by simp
  next
    case False
    note nosel = this
    show ?thesis
    proof (cases "query_kids sel ks")
      case (Some q)
      with 2 nosel have p: "p = 0 # q" by simp
      from Some query_kids_nonempty [of sel ks] obtain j q' where q: "q = j # q'"
        by (cases q) auto
      from 2(1) [OF nosel 2(3) Some] show ?thesis
        using nosel 2(3) by (simp add: p q has_class_def)
    next
      case None
      with 2 nosel obtain i q where r: "query_kids sel ns = Some (i # q)" and p: "p = Suc i # q"
        by (auto split: option.splits list.splits)
      from 2(2) [OF nosel None 2(3) r] show ?thesis
        using nosel by (simp add: p detach_Suc)
    qed
  qed
qed

lemma badges_removeRating_fewer:
  "badges t \<noteq> [] \<Longrightarrow> length (badges (removeRating t)) < length (badges t)"
  by (cases t) (auto simp: badges_def removeRating_def querySelector_def query_kids_None
      is_badge_def dest: detach_fewer [OF refl] split: option.splits)

lemma removeRating_none: "badges t = [] \<Longrightarrow> removeRating t = t"
  by (simp add: badges_def removeRating_def querySelector_def query_kids_None [symmetric])

lemma removeRating_clears: "length (badges t) \<le> 1 \<Longrightarrow> badges (removeRating t) = []"
proof (cases "badges t = []")
  case True
  then show ?thesis by (simp add: removeRating_none)
next
  case False
  assume "length (badges t) \<le> 1"
  with badges_removeRating_fewer [OF False] have "length (badges (removeRating t)) = 0"
    by arith
  then show ?thesis by simp
qed

lemma is_badge_badge: "is_badge (badge h r)"
  by (simp add: is_badge_def has_class_def badge_def)

lemma forest_nodes_badge:
  "forest_nodes [badge h r] = badge h r # forest_nodes (parse_html h (''&#9733; '' @ r))"
  by (simp add: badge_def)

lemma badges_set_style: "badges (set_style k v t) = badges t"
  by (cases t) (simp add: badges_def set_style_def)

lemma badges_attach:
  "badges (appendChild (badge h r) t) =
     badges t @ badge h r # filter is_badge (forest_nodes (parse_html h (''&#9733; '' @ r)))"
  by (cases t)
    (simp add: badges_def appendChild_def forest_nodes_append forest_nodes_badge is_badge_badge)

lemma badges_displayRating:
  "badges (displayRating h t rating) =
     badges (removeRating t) @
     (case rating of
        None \<Rightarrow> []
      | Some r \<Rightarrow>
          if r = [] then []
          else badge h r # filter is_badge (forest_nodes (parse_html h (''&#9733; '' @ r))))"
  by (cases rating) (simp_all add: displayRating_def badges_attach badges_set_style)

text \<open>
  On a target without a badge the badge that was appended is the first match, and
  removing it gives the target back.
\<close>

lemma query_kids_appended:
  assumes "filter sel (forest_nodes xs) = []" and "sel b"
  shows "query_kids sel (xs @ [b]) = Some [length xs]"
  using assms
proof (induction sel xs rule: query_kids.induct)
  case (1 sel)
  then show ?case by (cases b) simp
next
  case (2 sel tg cl at st mk ks ns)
  then have "query_kids sel ks = None"
    by (simp add: query_kids_None split: if_splits)
  with 2 show ?case by (simp split: if_splits)
qed

lemma removeRating_attach:
  assumes "badges t = []"
  shows "removeRating (appendChild (badge h r) t) = t"
proof (cases t)
  case (Node tg cl at st mk ks)
  with assms have "query_kids is_badge (ks @ [badge h r]) = Some [length ks]"
    by (intro query_kids_appended) (simp_all add: badges_def is_badge_badge)
  with Node show ?thesis
    by (simp add: removeRating_def querySelector_def appendChild_def)
qed

lemma removeRating_displayRating:
  assumes "length (badges t) \<le> 1"
  shows "badges (removeRating (displayRating h t rating)) = []"
proof -
  have gone: "badges (removeRating t) = []"
    using assms by (rule removeRating_clears)
  show ?thesis
  proof (cases "truthy rating")
    case False
    then have "displayRating h t rating = removeRating t"
      by (cases rating) (simp_all add: displayRating_def)
    with gone show ?thesis by (simp add: removeRating_none)
  next
    case True
    then obtain r where r: "rating = Some r" "r \<noteq> []" by (cases rating) auto
    let ?u = "set_style ''position'' ''relative'' (removeRating t)"
    have "badges ?u = []" by (simp add: badges_set_style gone)
    then have "removeRating (appendChild (badge h r) ?u) = ?u" by (rule removeRating_attach)
    with r \<open>badges ?u = []\<close> show ?thesis by (simp add: displayRating_def)
  qed
qed

text \<open>
  Claim C9. The claim: a card has at most one badge at any time, and two calls of
  \<^verbatim>\<open>displayRating\<close> in succession on the same target leave exactly one badge element, that
  of the second call. It fails for a rating that carries markup: line 79 assigns the
  rating to \<^verbatim>\<open>innerHTML\<close>, so with the rating \<^verbatim>\<open><i class=imdb-rating-badge>9</i>\<close> in the
  second call the card ends with two elements of class \<^verbatim>\<open>imdb-rating-badge\<close>, the badge
  and the element inside it.
\<close>

theorem badge_markup_counterexample:
  "length (badges
     (displayRating
        \<lparr>global_apiUrl = None, service = (\<lambda>url. Rejects),
         parse_html = (\<lambda>m. if m = ''&#9733; <i class=imdb-rating-badge>9</i>''
                            then [Node ''i'' [''imdb-rating-badge''] [] [] ''9'' []] else [])\<rparr>
        (displayRating
           \<lparr>global_apiUrl = None, service = (\<lambda>url. Rejects),
            parse_html = (\<lambda>m. if m = ''&#9733; <i class=imdb-rating-badge>9</i>''
                               then [Node ''i'' [''imdb-rating-badge''] [] [] ''9'' []] else [])\<rparr>
           (Node ''div'' [''slider-item''] [] [] []
              [Node ''a'' [] [(''aria-label'', ''Title A'')] [] [] []])
           (Some ''8.4''))
        (Some ''<i class=imdb-rating-badge>9</i>''))) = 2"
  by (simp add: displayRating_def removeRating_def querySelector_def badge_def badges_def
      appendChild_def set_style_def is_badge_def has_class_def)

text \<open>
  Claim C9, as amended. Badge exclusivity for ratings that are plain, that is, whose
  markup yields no element of the badge's class. On a target that carries at most one
  badge: \<^verbatim>\<open>removeRating\<close> leaves none; \<^verbatim>\<open>displayRating\<close> with \<^verbatim>\<open>null\<close> or the empty string
  removes the badge and attaches none; \<^verbatim>\<open>displayRating\<close> with a plain rating leaves at most
  one badge; with a plain rating that is a non-empty string, one call, and a second call
  after a first call with any rating, leave exactly one badge, the one built from the
  rating of the last call. \<^verbatim>\<open>removeRating\<close> changes nothing on a target without a badge.
\<close>

theorem badge_exclusivity:
  assumes "length (badges t) \<le> 1" and "plain_rating h (Some r)"
  shows "badges (removeRating t) = [] \<and>
         badges (displayRating h t None) = [] \<and>
         badges (displayRating h t (Some [])) = [] \<and>
         (r \<noteq> [] \<longrightarrow>
            badges (displayRating h t (Some r)) = [badge h r] \<and>
            badges (displayRating h (displayRating h t rating) (Some r)) = [badge h r] \<and>
            markup (badge h r) = ''&#9733; '' @ r) \<and>
         (plain_rating h rating \<longrightarrow> length (badges (displayRating h t rating)) \<le> 1) \<and>
         (badges t = [] \<longrightarrow> removeRating t = t)"
proof -
  have gone: "badges (removeRating t) = []"
    using assms(1) by (rule removeRating_clears)
  have again: "badges (removeRating (displayRating h t rating)) = []"
    using assms(1) by (rule removeRating_displayRating)
  have plain: "filter is_badge (forest_nodes (parse_html h (''&#9733; '' @ r))) = []"
    using assms(2) by (simp add: plain_rating_def)
  have "plain_rating h rating \<longrightarrow> length (badges (displayRating h t rating)) \<le> 1"
    by (cases rating) (simp_all add: badges_displayRating gone plain_rating_def)
  then show ?thesis
    using gone again plain
    by (simp add: badges_displayRating removeRating_none badge_def)
qed

text \<open>
  The witness: a card that carries a badge; the first call has a rating with markup of
  the badge's class, the second a plain one.
\<close>

theorem badge_exclusivity_witness:
  "length (badges (Node ''div'' [''slider-item''] [] [] []
       [Node ''a'' [] [(''aria-label'', ''Title A'')] [] [] [],
        Node ''div'' [''imdb-rating-badge''] [] [] ''&#9733; 7.0'' []])) \<le> 1 \<and>
   plain_rating
     \<lparr>global_apiUrl = None, service = (\<lambda>url. Rejects),
      parse_html = (\<lambda>m. if m = ''&#9733; <i class=imdb-rating-badge>9</i>''
                         then [Node ''i'' [''imdb-rating-badge''] [] [] ''9'' []] else [])\<rparr>
     (Some ''9.1'') \<and>
   badges (displayRating
     \<lparr>global_apiUrl = None, service = (\<lambda>url. Rejects),
      parse_html = (\<lambda>m. if m = ''&#9733; <i class=imdb-rating-badge>9</i>''
                         then [Node ''i'' [''imdb-rating-badge''] [] [] ''9'' []] else [])\<rparr>
     (Node ''div'' [''slider-item''] [] [] []
       [Node ''a'' [] [(''aria-label'', ''Title A'')] [] [] [],
        Node ''div'' [''imdb-rating-badge''] [] [] ''&#9733; 7.0'' []])
     None) = [] \<and>
   map markup (badges (displayRating
     \<lparr>global_apiUrl = None, service = (\<lambda>url. Rejects),
      parse_html = (\<lambda>m. if m = ''&#9733; <i class=imdb-rating-badge>9</i>''
                         then [Node ''i'' [''imdb-rating-badge''] [] [] ''9'' []] else [])\<rparr>
     (displayRating
        \<lparr>global_apiUrl = None, service = (\<lambda>url. Rejects),
         parse_html = (\<lambda>m. if m = ''&#9733; <i class=imdb-rating-badge>9</i>''
                            then [Node ''i'' [''imdb-rating-badge''] [] [] ''9'' []] else [])\<rparr>
        (Node ''div'' [''slider-item''] [] [] []
          [Node ''a'' [] [(''aria-label'', ''Title A'')] [] [] [],
           Node ''div'' [''imdb-rating-badge''] [] [] ''&#9733; 7.0'' []])
        (Some ''<i class=imdb-rating-badge>9</i>''))
     (Some ''9.1''))) = [''&#9733; 9.1'']"
  using badge_exclusivity [of
      "Node ''div'' [''slider-item''] [] [] []
        [Node ''a'' [] [(''aria-label'', ''Title A'')] [] [] [],
         Node ''div'' [''imdb-rating-badge''] [] [] ''&#9733; 7.0'' []]"
      "\<lparr>global_apiUrl = None, service = (\<lambda>url. Rejects),
        parse_html = (\<lambda>m. if m = ''&#9733; <i class=imdb-rating-badge>9</i>''
                           then [Node ''i'' [''imdb-rating-badge''] [] [] ''9'' []] else [])\<rparr>"
      "''9.1''" "Some ''<i class=imdb-rating-badge>9</i>''"]
  by (simp add: badges_def is_badge_def has_class_def plain_rating_def badge_def)

section \<open>Properties of the hover controller\<close>

lemma handleMouseOver_timers [simp]: "timers (handleMouseOver h e s) = timers s"
  by (simp add: handleMouseOver_def Let_def split: option.splits prod.splits)

lemma handleMouseOver_debounceTimer [simp]:
  "debounceTimer (handleMouseOver h e s) = debounceTimer s"
  by (simp add: handleMouseOver_def Let_def split: option.splits prod.splits)

lemma handleMouseOver_now [simp]: "now (handleMouseOver h e s) = now s"
  by (simp add: handleMouseOver_def Let_def split: option.splits prod.splits)

lemma handleMouseOver_next_timer [simp]: "next_timer (handleMouseOver h e s) = next_timer s"
  by (simp add: handleMouseOver_def Let_def split: option.splits prod.splits)

lemma handleMouseOver_entered [simp]:
  "entered (handleMouseOver h e s) = entered s @ [(now s, e)]"
  by (simp add: handleMouseOver_def Let_def split: option.splits prod.splits)

lemma elapse_idle:
  "timers s = [] \<Longrightarrow> elapse h d s = s\<lparr>now := now s + d\<rparr>"
  by (simp add: elapse_def)

lemma elapse_early:
  "timers s = [(i, due, e)] \<Longrightarrow> now s + d < due \<Longrightarrow> elapse h d s = s\<lparr>now := now s + d\<rparr>"
  by (simp add: elapse_def)

lemma elapse_due:
  "timers s = [(i, due, e)] \<Longrightarrow> due \<le> now s + d \<Longrightarrow>
   elapse h d s =
     (handleMouseOver h e (s\<lparr>timers := [], now := max (now s) due\<rparr>))\<lparr>now := now s + d\<rparr>"
  by (simp add: elapse_def)

lemma elapse_single_entered:
  assumes "timers s = [(i, due, e)]" and "now s \<le> due"
  shows "entered (elapse h d s) =
           entered s @ (if due \<le> now s + d then [(due, e)] else [])"
proof (cases "due \<le> now s + d")
  case True
  with assms(2) show ?thesis by (simp add: elapse_due [OF assms(1)] max_def)
next
  case False
  then show ?thesis by (simp add: elapse_early [OF assms(1)])
qed

lemma pending_ok_cases:
  "pending_ok s = (timers s = [] \<or> (\<exists>i due e. timers s = [(i, due, e)] \<and> debounceTimer s = Some i))"
  by (auto simp: pending_ok_def split: list.splits)

lemma debounced_arms:
  assumes "pending_ok s"
  shows "timers (debounced delay e s) = [(next_timer s, now s + delay, e)]"
    and "debounceTimer (debounced delay e s) = Some (next_timer s)"
    and "now (debounced delay e s) = now s"
    and "entered (debounced delay e s) = entered s"
  using assms
  by (auto simp: pending_ok_cases debounced_def setTimeout_def clearTimeout_def split: option.splits)

lemma pending_ok_debounced: "pending_ok s \<Longrightarrow> pending_ok (debounced delay e s)"
  by (simp add: pending_ok_def debounced_arms)

lemma handleMouseOut_timers:
  assumes "pending_ok s" and "closest (has_class ''slider-item'') (document s) e = Some q"
  shows "timers (handleMouseOut e s) = []"
  using assms
  by (auto simp: pending_ok_cases handleMouseOut_def clearTimeout_def Let_def split: option.splits)

lemma pending_ok_handleMouseOut: "pending_ok s \<Longrightarrow> pending_ok (handleMouseOut e s)"
proof (cases "closest (has_class ''slider-item'') (document s) e")
  case None
  then have "handleMouseOut e s = s" by (simp add: handleMouseOut_def)
  then show "pending_ok s \<Longrightarrow> ?thesis" by simp
next
  case (Some q)
  assume "pending_ok s"
  from handleMouseOut_timers [OF this Some] show ?thesis by (simp add: pending_ok_def)
qed

lemma pending_ok_elapse: "pending_ok s \<Longrightarrow> pending_ok (elapse h d s)"
proof -
  assume ok: "pending_ok s"
  show ?thesis
  proof (cases "timers s")
    case Nil
    then show ?thesis using ok by (simp add: elapse_idle pending_ok_def)
  next
    case (Cons x xs)
    with ok obtain i due e where t: "timers s = [(i, due, e)]" and dt: "debounceTimer s = Some i"
      by (auto simp: pending_ok_cases)
    show ?thesis
    proof (cases "due \<le> now s + d")
      case True
      then show ?thesis by (simp add: elapse_due [OF t] pending_ok_def)
    next
      case False
      then show ?thesis using t dt by (simp add: elapse_early [OF t] pending_ok_def)
    qed
  qed
qed

lemma pending_ok_dispatch: "pending_ok s \<Longrightarrow> pending_ok (dispatch ev s)"
  by (cases ev) (simp_all add: pending_ok_debounced pending_ok_handleMouseOut)

lemma pending_ok_run: "pending_ok s \<Longrightarrow> pending_ok (run h evs s)"
  by (induction evs arbitrary: s) (auto simp: pending_ok_dispatch pending_ok_elapse)

lemma pending_ok_length: "pending_ok s \<Longrightarrow> length (timers s) \<le> 1"
  by (auto simp: pending_ok_cases)

lemma pending_ok_initial: "pending_ok (initial_page doc)"
  by (simp add: pending_ok_def initial_page_def)

lemma burst_rearms:
  assumes "timers s = [(i, now s + 300, e)]" and "debounceTimer s = Some i"
    and "list_all (\<lambda>(gap, e'). gap < 300) es"
  shows "\<exists>j. timers (run h (map (apsnd MouseOver) es) s) =
            [(j, now s + sum_list (map fst es) + 300, last (e # map snd es))] \<and>
          debounceTimer (run h (map (apsnd MouseOver) es) s) = Some j \<and>
          now (run h (map (apsnd MouseOver) es) s) = now s + sum_list (map fst es) \<and>
          entered (run h (map (apsnd MouseOver) es) s) = entered s"
  using assms
proof (induction es arbitrary: s i e)
  case Nil
  then show ?case by simp
next
  case (Cons x es)
  obtain gap e' where x: "x = (gap, e')" by (cases x)
  with Cons.prems have gap: "gap < 300" and rest: "list_all (\<lambda>(gap, e'). gap < 300) es"
    by simp_all
  let ?s1 = "elapse h gap s"
  have s1: "?s1 = s\<lparr>now := now s + gap\<rparr>"
    using Cons.prems(1) gap by (simp add: elapse_early)
  have ok: "pending_ok ?s1"
    using Cons.prems by (simp add: s1 pending_ok_def)
  let ?s2 = "debounced 300 e' ?s1"
  have a: "timers ?s2 = [(next_timer ?s1, now ?s2 + 300, e')]"
    and b: "debounceTimer ?s2 = Some (next_timer ?s1)"
    and c: "now ?s2 = now s + gap" and e: "entered ?s2 = entered s"
    using debounced_arms [OF ok, of 300 e'] by (simp_all add: s1)
  from Cons.IH [OF a b rest] show ?case
    by (simp add: x c e add.assoc)
qed

lemma closest_sound:
  "closest sel n p = Some q \<Longrightarrow> \<exists>c. node_at n q = Some c \<and> sel c"
proof (induction sel n p arbitrary: q rule: closest.induct)
  case (1 sel n)
  then show ?case by (auto split: if_splits)
next
  case (2 sel n i p)
  then show ?case by (auto split: if_splits option.splits)
qed

lemma node_at_update_at:
  "node_at n q = Some c \<Longrightarrow> node_at (update_at q f n) q = Some (f c)"
proof (induction q f n rule: update_at.induct)
  case (1 f n)
  then show ?case by simp
next
  case (2 i p f tg cl at st mk ks)
  then show ?case by (auto split: if_splits)
qed

text \<open>
  Claim C7. Trailing-edge debounce. From a state with at most one pending timer, whose
  handle \<^verbatim>\<open>debounceTimer\<close> holds, every run of events leaves at most one timer pending.
  A pointer-enter followed by further pointer-enters, each less than 300 units after the
  one before, leaves one timer pending and has invoked \<^verbatim>\<open>handleMouseOver\<close> not at all; when
  \<open>d\<close> more units pass, the handler has been invoked once if \<open>300 \<le> d\<close> and not at all
  otherwise, at 300 units after the last event and with the last event as its argument.
\<close>

theorem debounce_collapse:
  assumes "pending_ok s" and "list_all (\<lambda>(gap, e). gap < 300) es"
  shows "length (timers (run h evs s)) \<le> 1 \<and>
         length (timers (run h (map (apsnd MouseOver) es) (dispatch (MouseOver e0) s))) = 1 \<and>
         entered (run h (map (apsnd MouseOver) es) (dispatch (MouseOver e0) s)) = entered s \<and>
         entered (elapse h d (run h (map (apsnd MouseOver) es) (dispatch (MouseOver e0) s))) =
           entered s @
           (if 300 \<le> d then [(now s + sum_list (map fst es) + 300, last (e0 # map snd es))] else [])"
proof -
  let ?s0 = "dispatch (MouseOver e0) s"
  let ?s1 = "run h (map (apsnd MouseOver) es) ?s0"
  have a: "timers ?s0 = [(next_timer s, now ?s0 + 300, e0)]"
    and b: "debounceTimer ?s0 = Some (next_timer s)"
    and c: "now ?s0 = now s" and e: "entered ?s0 = entered s"
    using debounced_arms [OF assms(1), of 300 e0] by simp_all
  from burst_rearms [OF a b assms(2), of h] obtain j where
    "timers ?s1 = [(j, now ?s0 + sum_list (map fst es) + 300, last (e0 # map snd es))]"
    and "now ?s1 = now ?s0 + sum_list (map fst es)" and "entered ?s1 = entered ?s0"
    by blast
  then have t: "timers ?s1 = [(j, now s + sum_list (map fst es) + 300, last (e0 # map snd es))]"
    and n: "now ?s1 = now s + sum_list (map fst es)" and en: "entered ?s1 = entered s"
    by (simp_all only: c e)
  have "entered (elapse h d ?s1) =
          entered s @
          (if 300 \<le> d then [(now s + sum_list (map fst es) + 300, last (e0 # map snd es))] else [])"
    using elapse_single_entered [OF t, of h d] n en by simp
  moreover have "length (timers (run h evs s)) \<le> 1"
    using assms(1) by (intro pending_ok_length pending_ok_run)
  ultimately show ?thesis using t en by simp
qed

theorem debounce_collapse_witness:
  "pending_ok (initial_page (Node ''body'' [] [] [] []
      [Node ''div'' [''slider-item''] [] [] []
         [Node ''a'' [] [(''aria-label'', ''Title A'')] [] [] []],
       Node ''div'' [''slider-item''] [] [] []
         [Node ''a'' [] [(''aria-label'', ''Title B'')] [] [] []]])) \<and>
   list_all (\<lambda>(gap, e). gap < 300) [(100 :: nat, [0, 0 :: nat]), (299, [0])] \<and>
   entered
     (elapse
        \<lparr>global_apiUrl = None, service = (\<lambda>url. Rejects), parse_html = (\<lambda>m. [])\<rparr> 300
        (run
           \<lparr>global_apiUrl = None, service = (\<lambda>url. Rejects), parse_html = (\<lambda>m. [])\<rparr>
           [(100, MouseOver [0, 0]), (299, MouseOver [0])]
           (dispatch (MouseOver [1])
              (initial_page (Node ''body'' [] [] [] []
                 [Node ''div'' [''slider-item''] [] [] []
                    [Node ''a'' [] [(''aria-label'', ''Title A'')] [] [] []],
                  Node ''div'' [''slider-item''] [] [] []
                    [Node ''a'' [] [(''aria-label'', ''Title B'')] [] [] []]]))))) =
     [(699, [0])]"
  using debounce_collapse [of
      "initial_page (Node ''body'' [] [] [] []
         [Node ''div'' [''slider-item''] [] [] []
            [Node ''a'' [] [(''aria-label'', ''Title A'')] [] [] []],
          Node ''div'' [''slider-item''] [] [] []
            [Node ''a'' [] [(''aria-label'', ''Title B'')] [] [] []]])"
      "[(100, [0, 0]), (299, [0])]"
      "\<lparr>global_apiUrl = None, service = (\<lambda>url. Rejects), parse_html = (\<lambda>m. [])\<rparr>"
      "[]" "[1]" 300]
  by (simp add: initial_page_def pending_ok_def)

text \<open>
  Claim C8. Leave cancels pending work. When the target of a pointer-leave has no
  enclosing card, \<^verbatim>\<open>handleMouseOut\<close> changes nothing. When it has one, no timer is pending
  afterwards, so however much time passes the handler that was scheduled is never
  invoked; and the card has gone through \<^verbatim>\<open>removeRating\<close> in the same step, which leaves
  it without a badge when it carried at most one.
\<close>

theorem leave_cancels_pending:
  assumes "pending_ok s"
  shows "(closest (has_class ''slider-item'') (document s) e = None \<longrightarrow> handleMouseOut e s = s) \<and>
         (\<forall>q. closest (has_class ''slider-item'') (document s) e = Some q \<longrightarrow>
            timers (handleMouseOut e s) = [] \<and>
            entered (handleMouseOut e s) = entered s \<and>
            entered (elapse h d (handleMouseOut e s)) = entered s \<and>
            (\<exists>c. node_at (document s) q = Some c \<and> has_class ''slider-item'' c \<and>
                 node_at (document (handleMouseOut e s)) q = Some (removeRating c) \<and>
                 (length (badges c) \<le> 1 \<longrightarrow> badges (removeRating c) = [])))"
proof (intro conjI allI impI)
  assume "closest (has_class ''slider-item'') (document s) e = None"
  then show "handleMouseOut e s = s" by (simp add: handleMouseOut_def)
next
  fix q assume q: "closest (has_class ''slider-item'') (document s) e = Some q"
  show t: "timers (handleMouseOut e s) = []"
    using assms q by (rule handleMouseOut_timers)
  show n: "entered (handleMouseOut e s) = entered s"
    using q by (simp add: handleMouseOut_def clearTimeout_def Let_def split: option.splits)
  show "entered (elapse h d (handleMouseOut e s)) = entered s"
    by (simp add: elapse_idle [OF t] n)
  from closest_sound [OF q] obtain c where
    c: "node_at (document s) q = Some c" and k: "has_class ''slider-item'' c" by blast
  have "node_at (document (handleMouseOut e s)) q = Some (removeRating c)"
    using q c
    by (simp add: handleMouseOut_def clearTimeout_def Let_def node_at_update_at split: option.splits)
  with c k show "\<exists>c. node_at (document s) q = Some c \<and> has_class ''slider-item'' c \<and>
                 node_at (document (handleMouseOut e s)) q = Some (removeRating c) \<and>
                 (length (badges c) \<le> 1 \<longrightarrow> badges (removeRating c) = [])"
    by (auto simp: removeRating_clears)
qed

theorem leave_cancels_pending_witness:
  "pending_ok
     (run \<lparr>global_apiUrl = None, service = (\<lambda>url. Rejects), parse_html = (\<lambda>m. [])\<rparr>
        [(0, MouseOver [0, 0])]
        (initial_page (Node ''body'' [] [] [] []
           [Node ''div'' [''slider-item''] [] [] []
              [Node ''a'' [] [(''aria-label'', ''Title A'')] [] [] [],
               Node ''div'' [''imdb-rating-badge''] [] [] ''&#9733; 8.4'' []]]))) \<and>
   length (timers
     (run \<lparr>global_apiUrl = None, service = (\<lambda>url. Rejects), parse_html = (\<lambda>m. [])\<rparr>
        [(0, MouseOver [0, 0])]
        (initial_page (Node ''body'' [] [] [] []
           [Node ''div'' [''slider-item''] [] [] []
              [Node ''a'' [] [(''aria-label'', ''Title A'')] [] [] [],
               Node ''div'' [''imdb-rating-badge''] [] [] ''&#9733; 8.4'' []]])))) = 1 \<and>
   entered
     (elapse \<lparr>global_apiUrl = None, service = (\<lambda>url. Rejects), parse_html = (\<lambda>m. [])\<rparr>
        1000
        (handleMouseOut [0, 0]
           (run \<lparr>global_apiUrl = None, service = (\<lambda>url. Rejects), parse_html = (\<lambda>m. [])\<rparr>
              [(0, MouseOver [0, 0])]
              (initial_page (Node ''body'' [] [] [] []
                 [Node ''div'' [''slider-item''] [] [] []
                    [Node ''a'' [] [(''aria-label'', ''Title A'')] [] [] [],
                     Node ''div'' [''imdb-rating-badge''] [] [] ''&#9733; 8.4'' []]]))))) = [] \<and>
   node_at
     (document
        (handleMouseOut [0, 0]
           (run \<lparr>global_apiUrl = None, service = (\<lambda>url. Rejects), parse_html = (\<lambda>m. [])\<rparr>
              [(0, MouseOver [0, 0])]
              (initial_page (Node ''body'' [] [] [] []
                 [Node ''div'' [''slider-item''] [] [] []
                    [Node ''a'' [] [(''aria-label'', ''Title A'')] [] [] [],
                     Node ''div'' [''imdb-rating-badge''] [] [] ''&#9733; 8.4'' []]])))))
     [0] =
     Some (Node ''div'' [''slider-item''] [] [] []
             [Node ''a'' [] [(''aria-label'', ''Title A'')] [] [] []])"
  using leave_cancels_pending [of
      "run \<lparr>global_apiUrl = None, service = (\<lambda>url. Rejects), parse_html = (\<lambda>m. [])\<rparr>
         [(0, MouseOver [0, 0])]
         (initial_page (Node ''body'' [] [] [] []
            [Node ''div'' [''slider-item''] [] [] []
               [Node ''a'' [] [(''aria-label'', ''Title A'')] [] [] [],
                Node ''div'' [''imdb-rating-badge''] [] [] ''&#9733; 8.4'' []]]))"
      "[0, 0]"
      "\<lparr>global_apiUrl = None, service = (\<lambda>url. Rejects), parse_html = (\<lambda>m. [])\<rparr>"
      1000]
  by (simp add: initial_page_def elapse_def debounced_def setTimeout_def clearTimeout_def
      pending_ok_def has_class_def removeRating_def querySelector_def is_badge_def)

end
